theory Spec2Isabelle
  imports Main "HOL-Library.Sublist"
begin

section \<open>JavaScript values\<close>

text \<open>
  The transport in \<^verbatim>\<open>src/scope/network/ssh/ssh.ts\<close> handles values whose shape is
  only known at run time: the decoded envelope, its headers and its payload. They are
  modelled by the JSON fragment of JavaScript values. \<open>JUndefined\<close> is the value of an
  unset variable and of a missing property. Numbers are integers (the exit codes and the
  truthiness of a number are all the code uses of them), and a string is the list of its
  characters.
\<close>

datatype jsval =
    JUndefined
  | JNull
  | JBool bool
  | JNum int
  | JStr string
  | JArr "jsval list"
  | JObj "(string \<times> jsval) list"

text \<open>Truthiness, as tested by \<^verbatim>\<open>a ? b : c\<close>, \<^verbatim>\<open>a && b\<close> and \<^verbatim>\<open>a || b\<close>.\<close>

fun truthy :: "jsval \<Rightarrow> bool" where
  "truthy JUndefined = False"
| "truthy JNull = False"
| "truthy (JBool b) = b"
| "truthy (JNum n) = (n \<noteq> 0)"
| "truthy (JStr s) = (s \<noteq> [])"
| "truthy (JArr xs) = True"
| "truthy (JObj kvs) = True"

definition js_and :: "jsval \<Rightarrow> jsval \<Rightarrow> jsval" where
  "js_and a b = (if truthy a then b else a)"

definition js_or :: "jsval \<Rightarrow> jsval \<Rightarrow> jsval" where
  "js_or a b = (if truthy a then a else b)"

text \<open>
  Reading a property \<^verbatim>\<open>v.k\<close> of a value that is neither \<^verbatim>\<open>undefined\<close> nor
  \<^verbatim>\<open>null\<close>: an object yields the stored value or \<^verbatim>\<open>undefined\<close>; for the property
  names read by the transport (\<^verbatim>\<open>headers\<close>, \<^verbatim>\<open>payload\<close>, \<^verbatim>\<open>version\<close>,
  \<^verbatim>\<open>message\<close>, \<^verbatim>\<open>id\<close>, \<^verbatim>\<open>name\<close>, \<^verbatim>\<open>idsAndVersions\<close>, \<^verbatim>\<open>sourceScope\<close>,
  \<^verbatim>\<open>destinationScope\<close>, \<^verbatim>\<open>ids\<close>) a primitive or an array yields \<^verbatim>\<open>undefined\<close>.
\<close>

fun js_prop :: "jsval \<Rightarrow> string \<Rightarrow> jsval" where
  "js_prop (JObj kvs) k = (case map_of kvs k of None \<Rightarrow> JUndefined | Some v \<Rightarrow> v)"
| "js_prop v k = JUndefined"

fun nullish :: "jsval \<Rightarrow> bool" where
  "nullish JUndefined = True"
| "nullish JNull = True"
| "nullish v = False"

section \<open>Errors\<close>

text \<open>
  Every exception class the modelled code constructs or catches is a constructor;
  \<open>TypeError\<close> is what JavaScript throws on a property read of \<^verbatim>\<open>undefined\<close> or
  \<^verbatim>\<open>null\<close>, and \<open>Thrown\<close> stands for any error raised by a collaborator outside the
  modelled files. The specification calls \<open>CustomError\<close> ``GenericRemoteError''.
\<close>

datatype error =
    ComponentNotFound jsval
  | PermissionDenied string
  | RemoteScopeNotFound jsval
  | MergeConflictOnRemote jsval
  | CustomError jsval
  | OldClientVersion jsval
  | ExportAnotherOwnerPrivate jsval jsval jsval
  | UnexpectedNetworkError jsval
  | SSHInvalidResponse jsval
  | AuthenticationStrategyFailed string
  | AuthenticationFailed string
  | GeneralError string
  | TypeError
  | Thrown string

text \<open>A property read that throws on \<^verbatim>\<open>undefined\<close> and \<^verbatim>\<open>null\<close>.\<close>

definition get_prop :: "jsval \<Rightarrow> string \<Rightarrow> error + jsval" where
  "get_prop v k = (if nullish v then Inl TypeError else Inr (js_prop v k))"

section \<open>The run-once version check\<close>

text \<open>
  \<^verbatim>\<open>const checkVersionCompatibility = R.once(checkVersionCompatibilityFunction);\<close>

  Ramda's \<^verbatim>\<open>once\<close> keeps a flag and the first result: the wrapped function is applied
  on the first call only, whatever the argument of later calls; the flag is set before
  the function is applied, so a first call that throws still counts. The state of the
  wrapper is process-wide. The field \<open>invoked\<close> is a trace of the arguments the wrapped
  function was really applied to; the code does not read it.
\<close>

record once_state =
  called :: bool
  result :: jsval
  invoked :: "jsval list"

definition once_init :: once_state where
  "once_init = \<lparr>called = False, result = JUndefined, invoked = []\<rparr>"

definition once :: "(jsval \<Rightarrow> error + jsval) \<Rightarrow> once_state \<Rightarrow> jsval \<Rightarrow> (error + jsval) \<times> once_state" where
  "once fn st x =
     (if called st then (Inr (result st), st)
      else (case fn x of
              Inl e \<Rightarrow> (Inl e, st\<lparr>called := True, invoked := invoked st @ [x]\<rparr>)
            | Inr r \<Rightarrow> (Inr r, st\<lparr>called := True, result := r, invoked := invoked st @ [x]\<rparr>)))"

section \<open>Collaborators and the client instance\<close>

text \<open>
  The codec \<^verbatim>\<open>unpackCommand\<close>, the version check \<^verbatim>\<open>checkVersionCompatibilityFunction\<close>,
  the deserialiser \<^verbatim>\<open>ComponentObjects.manyFromString\<close> and the built-in \<^verbatim>\<open>JSON.parse\<close>
  are not part of the modelled files; they are parameters. A result \<open>None\<close> of a
  decoder means that it throws.
\<close>

record collaborators =
  unpackCommand :: "jsval \<Rightarrow> bool \<Rightarrow> jsval option"
  checkVersionCompatibilityFunction :: "jsval \<Rightarrow> error + jsval"
  JSON_parse :: "string \<Rightarrow> jsval option"
  manyFromString :: "jsval \<Rightarrow> error + jsval"

definition checkVersionCompatibility :: "collaborators \<Rightarrow> once_state \<Rightarrow> jsval \<Rightarrow> (error + jsval) \<times> once_state" where
  "checkVersionCompatibility ext st v = once (checkVersionCompatibilityFunction ext) st v"

record ssh_config =
  cfg_username :: string
  cfg_host :: string
  cfg_port :: int
  cfg_password :: "string option"
  cfg_agent :: "string option"
  cfg_privateKey :: "string option"

record ssh =
  connection :: "ssh_config option"
  path :: string
  username :: string
  port :: int
  host :: string
  sshUsername :: "string option"

section \<open>The error translator\<close>

text \<open>\<^verbatim>\<open>_unpack(data, base64 = true)\<close>: any failure of the codec becomes \<open>SSHInvalidResponse data\<close>.\<close>

definition unpack :: "collaborators \<Rightarrow> jsval \<Rightarrow> bool \<Rightarrow> error + jsval" where
  "unpack ext data base64 =
     (case unpackCommand ext data base64 of
        None \<Rightarrow> Inl (SSHInvalidResponse data)
      | Some unpacked \<Rightarrow> Inr unpacked)"

text \<open>
  The body of the \<^verbatim>\<open>try\<close> block of \<^verbatim>\<open>errorHandler\<close>:
  \<^verbatim>\<open>const { headers, payload } = this._unpack(err, false);
  checkVersionCompatibility(headers.version);
  parsedError = payload;\<close>
  Each step can throw: the codec, the destructuring of a nullish value, the read of
  \<^verbatim>\<open>headers.version\<close> when the envelope has no headers, and the version check.
\<close>

definition parse_error_envelope :: "collaborators \<Rightarrow> once_state \<Rightarrow> jsval \<Rightarrow> (error + jsval) \<times> once_state" where
  "parse_error_envelope ext st err =
     (case unpack ext err False of
        Inl e \<Rightarrow> (Inl e, st)
      | Inr unpacked \<Rightarrow>
          (case get_prop unpacked ''headers'' of
             Inl e \<Rightarrow> (Inl e, st)
           | Inr headers \<Rightarrow>
               (case get_prop headers ''version'' of
                  Inl e \<Rightarrow> (Inl e, st)
                | Inr version \<Rightarrow>
                    (case checkVersionCompatibility ext st version of
                       (Inl e, st') \<Rightarrow> (Inl e, st')
                     | (Inr r, st') \<Rightarrow> (Inr (js_prop unpacked ''payload''), st')))))"

text \<open>The \<^verbatim>\<open>switch\<close> of \<^verbatim>\<open>errorHandler\<close>, on the value left in \<^verbatim>\<open>parsedError\<close>.\<close>

definition error_of_code :: "ssh \<Rightarrow> int \<Rightarrow> jsval \<Rightarrow> jsval \<Rightarrow> error" where
  "error_of_code this code parsedError err =
     (if code = 127 then ComponentNotFound (js_or (js_and parsedError (js_prop parsedError ''id'')) err)
      else if code = 128 then PermissionDenied (host this @ '':'' @ path this)
      else if code = 129 then RemoteScopeNotFound (js_or (js_and parsedError (js_prop parsedError ''name'')) err)
      else if code = 130 then PermissionDenied (host this @ '':'' @ path this)
      else if code = 131 then
        MergeConflictOnRemote
          (if truthy (js_and parsedError (js_prop parsedError ''idsAndVersions''))
           then js_prop parsedError ''idsAndVersions'' else JArr [])
      else if code = 132 then
        CustomError
          (if truthy (js_and parsedError (js_prop parsedError ''message''))
           then js_prop parsedError ''message'' else err)
      else if code = 133 then
        OldClientVersion
          (if truthy (js_and parsedError (js_prop parsedError ''message''))
           then js_prop parsedError ''message'' else err)
      else if code = 134 then
        ExportAnotherOwnerPrivate
          (if truthy (js_and parsedError (js_prop parsedError ''message''))
           then js_prop parsedError ''message'' else err)
          (if truthy (js_and parsedError (js_prop parsedError ''sourceScope''))
           then js_prop parsedError ''sourceScope'' else JStr ''unknown'')
          (if truthy (js_and parsedError (js_prop parsedError ''destinationScope''))
           then js_prop parsedError ''destinationScope'' else JStr ''unknown'')
      else UnexpectedNetworkError (if truthy parsedError then js_prop parsedError ''message'' else err))"

text \<open>
  \<^verbatim>\<open>errorHandler(code, err)\<close>: \<^verbatim>\<open>parsedError\<close> stays \<^verbatim>\<open>undefined\<close> when anything in
  the \<^verbatim>\<open>try\<close> block throws (the \<^verbatim>\<open>catch\<close> only logs).
\<close>

definition errorHandler :: "collaborators \<Rightarrow> ssh \<Rightarrow> once_state \<Rightarrow> int \<Rightarrow> jsval \<Rightarrow> error \<times> once_state" where
  "errorHandler ext this st code err =
     (case parse_error_envelope ext st err of
        (Inl e, st') \<Rightarrow> (error_of_code this code JUndefined err, st')
      | (Inr payload, st') \<Rightarrow> (error_of_code this code payload err, st'))"

subsection \<open>The table as the specification words it\<close>

text \<open>
  ``\<open>payload.k\<close>, else \<open>d\<close>'': the field \<open>k\<close> of the payload when there is a payload and
  the field holds a truthy value, else the default \<open>d\<close>.
\<close>

definition field_else :: "jsval option \<Rightarrow> string \<Rightarrow> jsval \<Rightarrow> jsval" where
  "field_else payload k d =
     (case payload of
        None \<Rightarrow> d
      | Some p \<Rightarrow> (if truthy (js_prop p k) then js_prop p k else d))"

text \<open>
  The exit-code table of the specification, for the client's host \<open>h\<close> and path \<open>p\<close>,
  the exit code, the payload when there is one, and the raw text \<open>e\<close>.
\<close>

definition spec_error_table :: "string \<Rightarrow> string \<Rightarrow> int \<Rightarrow> jsval option \<Rightarrow> string \<Rightarrow> error" where
  "spec_error_table h p code payload e =
     (if code = 127 then ComponentNotFound (field_else payload ''id'' (JStr e))
      else if code = 128 \<or> code = 130 then PermissionDenied (h @ '':'' @ p)
      else if code = 129 then RemoteScopeNotFound (field_else payload ''name'' (JStr e))
      else if code = 131 then MergeConflictOnRemote (field_else payload ''idsAndVersions'' (JArr []))
      else if code = 132 then CustomError (field_else payload ''message'' (JStr e))
      else if code = 133 then OldClientVersion (field_else payload ''message'' (JStr e))
      else if code = 134 then
        ExportAnotherOwnerPrivate (field_else payload ''message'' (JStr e))
          (field_else payload ''sourceScope'' (JStr ''unknown''))
          (field_else payload ''destinationScope'' (JStr ''unknown''))
      else UnexpectedNetworkError (field_else payload ''message'' (JStr e)))"

text \<open>
  The payload ``obtained by decoding \<open>e\<close> as an envelope'': there is one whenever the codec
  decodes the text.
\<close>

definition decoded_payload :: "collaborators \<Rightarrow> string \<Rightarrow> jsval option" where
  "decoded_payload ext e =
     (case unpackCommand ext (JStr e) False of
        None \<Rightarrow> None
      | Some envelope \<Rightarrow> Some (js_prop envelope ''payload''))"

text \<open>
  The payload that \<^verbatim>\<open>errorHandler\<close> keeps: there is one when the codec decodes the text
  to an envelope that has headers and the version check of \<^verbatim>\<open>headers.version\<close> does not
  throw.
\<close>

definition accepted_payload :: "collaborators \<Rightarrow> once_state \<Rightarrow> string \<Rightarrow> jsval option" where
  "accepted_payload ext st e =
     (case unpackCommand ext (JStr e) False of
        None \<Rightarrow> None
      | Some envelope \<Rightarrow>
          (if nullish envelope \<or> nullish (js_prop envelope ''headers'') then None
           else (case fst (checkVersionCompatibility ext st (js_prop (js_prop envelope ''headers'') ''version'')) of
                   Inl x \<Rightarrow> None
                 | Inr r \<Rightarrow> Some (js_prop envelope ''payload''))))"

text \<open>
  A concrete instance of the collaborators: a codec that decodes two error texts and two
  responses and throws on every other input, a version check that rejects the version
  \<open>99.0.0\<close>, and a \<^verbatim>\<open>JSON.parse\<close> that accepts the texts \<open>null\<close> and \<open>[]\<close>.
\<close>

definition ext_example :: collaborators where
  "ext_example =
     \<lparr>unpackCommand = (\<lambda>d b.
        if d = JStr ''E1'' \<and> \<not> b
        then Some (JObj [(''headers'', JObj [(''version'', JStr ''99.0.0'')]),
                         (''payload'', JObj [(''id'', JStr ''my/comp'')])])
        else if d = JStr ''E2'' \<and> \<not> b
        then Some (JObj [(''headers'', JObj [(''version'', JStr ''1'')]),
                         (''payload'', JObj [(''id'', JStr ''my/comp'')])])
        else if d = JStr ''R1'' \<and> b
        then Some (JObj [(''headers'', JObj [(''version'', JStr ''1'')]),
                         (''payload'', JObj [(''ids'', JArr [JStr ''a/b''])])])
        else if d = JStr ''R2'' \<and> b
        then Some (JObj [(''headers'', JObj [(''version'', JStr ''2'')]),
                         (''payload'', JObj [(''ids'', JArr [JStr ''c/d''])])])
        else None),
      checkVersionCompatibilityFunction = (\<lambda>v.
        if v = JStr ''99.0.0'' then Inl (OldClientVersion (JStr ''please update'')) else Inr JUndefined),
      JSON_parse = (\<lambda>s. if s = ''null'' then Some JNull else if s = ''[]'' then Some (JArr []) else None),
      manyFromString = (\<lambda>payload. Inr payload)\<rparr>"

section \<open>Authentication negotiation\<close>

datatype SSHConnectionStrategyName = Token | SshAgent | SshKey | UserPassword | Anonymous

definition DEFAULT_STRATEGIES :: "SSHConnectionStrategyName list" where
  "DEFAULT_STRATEGIES = [Token, SshAgent, SshKey, UserPassword]"

definition DEFAULT_READ_STRATEGIES :: "SSHConnectionStrategyName list" where
  "DEFAULT_READ_STRATEGIES = [Token, SshAgent, SshKey, Anonymous, UserPassword]"

text \<open>\<^verbatim>\<open>Array.prototype.join\<close> on an array of strings.\<close>

fun join :: "string \<Rightarrow> string list \<Rightarrow> string" where
  "join sep [] = []"
| "join sep [x] = x"
| "join sep (x # y # ys) = x @ sep @ join sep (y # ys)"

definition FAILURES_HEADER :: string where
  "FAILURES_HEADER = ''The following strategies were failed''"

definition FAILURES_SEPARATOR :: string where
  "FAILURES_SEPARATOR = CHR 0x0A # ''[-] ''"

text \<open>
  One attempt of a strategy, \<^verbatim>\<open>await strategyFunc()\<close>, either throws (\<open>Inl\<close>) or
  returns a value, \<open>Some c\<close> when the value is truthy and \<open>None\<close> when it is falsy; it
  may change the world \<open>'w\<close> (the client instance and whatever the strategy touches).
  The result of \<^verbatim>\<open>connect\<close> records, besides what the promise settles with, the
  attempts made in order (the code logs each of them with \<^verbatim>\<open>logger.debug\<close>) and the
  final content of the local array \<^verbatim>\<open>strategiesFailures\<close>.
\<close>

record ('w, 'c) negotiation =
  outcome :: "error + 'c"
  attempts :: "(SSHConnectionStrategyName \<times> (error + 'c option)) list"
  failures :: "string list"
  world :: 'w

definition attempted :: "SSHConnectionStrategyName \<times> (error + 'c option) \<Rightarrow> ('w, 'c) negotiation \<Rightarrow> ('w, 'c) negotiation" where
  "attempted a r = r\<lparr>attempts := a # attempts r\<rparr>"

text \<open>
  The \<^verbatim>\<open>for\<close> loop of \<^verbatim>\<open>connect\<close> over the remaining names, with the array
  \<^verbatim>\<open>strategiesFailures\<close> as accumulator, and the two statements after the loop.
\<close>

fun connect_loop ::
  "(SSHConnectionStrategyName \<Rightarrow> 'w \<Rightarrow> (error + 'c option) \<times> 'w) \<Rightarrow> string list \<Rightarrow>
   SSHConnectionStrategyName list \<Rightarrow> 'w \<Rightarrow> ('w, 'c) negotiation" where
  "connect_loop strategies strategiesFailures [] w =
     \<lparr>outcome = Inl (AuthenticationFailed (join FAILURES_SEPARATOR (FAILURES_HEADER # strategiesFailures))),
      attempts = [], failures = FAILURES_HEADER # strategiesFailures, world = w\<rparr>"
| "connect_loop strategies strategiesFailures (strategyName # rest) w =
     (case strategies strategyName w of
        (Inr (Some strategyResult), w') \<Rightarrow>
          \<lparr>outcome = Inr strategyResult, attempts = [(strategyName, Inr (Some strategyResult))],
           failures = strategiesFailures, world = w'\<rparr>
      | (Inr None, w') \<Rightarrow>
          attempted (strategyName, Inr None) (connect_loop strategies strategiesFailures rest w')
      | (Inl err, w') \<Rightarrow>
          (case err of
             AuthenticationStrategyFailed message \<Rightarrow>
               attempted (strategyName, Inl err)
                 (connect_loop strategies (strategiesFailures @ [message]) rest w')
           | _ \<Rightarrow>
               \<lparr>outcome = Inl err, attempts = [(strategyName, Inl err)],
                failures = strategiesFailures, world = w'\<rparr>))"

definition connect ::
  "(SSHConnectionStrategyName \<Rightarrow> 'w \<Rightarrow> (error + 'c option) \<times> 'w) \<Rightarrow>
   SSHConnectionStrategyName list \<Rightarrow> 'w \<Rightarrow> ('w, 'c) negotiation" where
  "connect strategies strategiesNames w = connect_loop strategies [] strategiesNames w"

text \<open>The text a recoverable failure contributes to the aggregate.\<close>

fun failure_text :: "error + 'c option \<Rightarrow> string" where
  "failure_text (Inl (AuthenticationStrategyFailed message)) = message"
| "failure_text r = []"

fun recoverable :: "error + 'c option \<Rightarrow> bool" where
  "recoverable (Inl (AuthenticationStrategyFailed message)) = True"
| "recoverable r = False"

subsection \<open>The five strategies\<close>

text \<open>
  What the strategies read from outside the client instance: the token of the command
  line and of the configuration, the agent socket of the environment, the key file,
  the prompt, the platform test, and the transport handshake (\<open>None\<close> for the event
  \<^verbatim>\<open>ready\<close>, \<open>Some err\<close> for the event \<^verbatim>\<open>error\<close>). The handshake timeout
  \<^verbatim>\<open>DEFAULT_SSH_READY_TIMEOUT\<close> and the undefined passphrase are the same in every
  configuration and left out of \<open>ssh_config\<close>.
\<close>

record transport_error =
  te_message :: string
  te_code :: "string option"
  te_host :: string
  te_port :: string

record auth_env =
  globalFlags_token :: "string option"
  config_user_token :: "string option"
  SSH_AUTH_SOCK :: "string option"
  keyGetter :: "error + string option"
  promptUserpass :: "error + (string \<times> string)"
  macMojaveOs :: bool
  handshake :: "ssh_config \<Rightarrow> transport_error option"

definition AUTH_FAILED_MESSAGE :: string where
  "AUTH_FAILED_MESSAGE = ''All configured authentication methods failed''"

definition PASSPHRASE_POSSIBLY_MISSING_MESSAGE :: string where
  "PASSPHRASE_POSSIBLY_MISSING_MESSAGE = ''Cannot parse privateKey: Unsupported key format''"

fun truthy_string :: "string option \<Rightarrow> bool" where
  "truthy_string None = False"
| "truthy_string (Some s) = (s \<noteq> [])"

definition composeBaseObject :: "ssh \<Rightarrow> ssh_config" where
  "composeBaseObject this =
     \<lparr>cfg_username = username this, cfg_host = host this, cfg_port = port this,
      cfg_password = None, cfg_agent = None, cfg_privateKey = None\<rparr>"

definition composeTokenAuthObject :: "auth_env \<Rightarrow> ssh \<Rightarrow> ssh_config option \<times> ssh" where
  "composeTokenAuthObject env this =
     (let token = (if truthy_string (globalFlags_token env) then globalFlags_token env
                   else config_user_token env)
      in if truthy_string token
         then (Some ((composeBaseObject this)\<lparr>cfg_username := ''token'', cfg_password := token\<rparr>),
               this\<lparr>sshUsername := Some ''token''\<rparr>)
         else (None, this))"

definition composeAnonymousAuthObject :: "ssh \<Rightarrow> ssh_config option \<times> ssh" where
  "composeAnonymousAuthObject this =
     (Some ((composeBaseObject this)\<lparr>cfg_username := ''anonymous'', cfg_password := Some []\<rparr>),
      this\<lparr>sshUsername := Some ''anonymous''\<rparr>)"

definition connectWithConfig ::
  "auth_env \<Rightarrow> ssh \<Rightarrow> ssh_config \<Rightarrow> string \<Rightarrow> string \<Rightarrow> (error + ssh option) \<times> ssh" where
  "connectWithConfig env this sshConfig authenticationType authFailedMsg =
     (case handshake env sshConfig of
        None \<Rightarrow> (Inr (Some (this\<lparr>connection := Some sshConfig\<rparr>)), this\<lparr>connection := Some sshConfig\<rparr>)
      | Some err \<Rightarrow>
          (if te_message err = AUTH_FAILED_MESSAGE
           then (Inl (AuthenticationStrategyFailed authFailedMsg), this)
           else if te_code err = Some ''ENOTFOUND''
           then (Inl (GeneralError
                   (''unable to find the SSH server. host: '' @ te_host err @ '', port: '' @ te_port err
                    @ ''. Original error message: '' @ te_message err)), this)
           else if te_message err = PASSPHRASE_POSSIBLY_MISSING_MESSAGE
           then (Inl (AuthenticationStrategyFailed
                   (''error connecting with private ssh key. in case passphrase is used, use ssh-agent.''
                    @ (if macMojaveOs env
                       then '' for macOS Mojave users, use `-m PEM` for `ssh-keygen` command to generate a valid SSH key''
                       else []))), this)
           else (Inl (AuthenticationStrategyFailed
                   (authFailedMsg @ '' due to an error '' @ [CHR 0x22] @ te_message err @ [CHR 0x22])), this)))"

definition tokenAuthentication :: "auth_env \<Rightarrow> ssh \<Rightarrow> (error + ssh option) \<times> ssh" where
  "tokenAuthentication env this =
     (case composeTokenAuthObject env this of
        (None, this') \<Rightarrow>
          (Inl (AuthenticationStrategyFailed
             ''user token not defined in bit-config. please run `bit login` to authenticate.''), this')
      | (Some sshConfig, this') \<Rightarrow>
          connectWithConfig env this' sshConfig ''token''
            ''failed to authenticate with user token. generate a new token by running `bit logout && bit login`.'')"

definition anonymousAuthentication :: "auth_env \<Rightarrow> ssh \<Rightarrow> (error + ssh option) \<times> ssh" where
  "anonymousAuthentication env this =
     (case composeAnonymousAuthObject this of
        (None, this') \<Rightarrow>
          (Inl (AuthenticationStrategyFailed ''could not create the anonymous ssh configuration.''), this')
      | (Some sshConfig, this') \<Rightarrow>
          connectWithConfig env this' sshConfig ''anonymous'' ''collection might be private.'')"

definition sshAgentAuthentication :: "auth_env \<Rightarrow> ssh \<Rightarrow> (error + ssh option) \<times> ssh" where
  "sshAgentAuthentication env this =
     (if \<not> truthy_string (SSH_AUTH_SOCK env)
      then (Inl (AuthenticationStrategyFailed
              ''unable to get SSH keys from ssh-agent to. perhaps service is down or disabled.''), this)
      else connectWithConfig env this ((composeBaseObject this)\<lparr>cfg_agent := SSH_AUTH_SOCK env\<rparr>) ''ssh-agent''
             ''no matching private key found in ssh-agent to authenticate to remote server.'')"

definition sshKeyAuthentication :: "auth_env \<Rightarrow> ssh \<Rightarrow> (error + ssh option) \<times> ssh" where
  "sshKeyAuthentication env this =
     (case keyGetter env of
        Inl e \<Rightarrow> (Inl e, this)
      | Inr None \<Rightarrow>
          (Inl (AuthenticationStrategyFailed
             ''SSH key not found in `~/.ssh/id_rsa` or `ssh_key_file` config in `bit config` either not configured or refers to wrong path.''), this)
      | Inr (Some keyBuffer) \<Rightarrow>
          connectWithConfig env this ((composeBaseObject this)\<lparr>cfg_privateKey := Some keyBuffer\<rparr>) ''ssh-key''
            ''failed connecting to remote server using `~/.ssh/id_rsa` or `ssh_key_file` in `bit config`.'')"

definition userPassAuthentication :: "auth_env \<Rightarrow> ssh \<Rightarrow> (error + ssh option) \<times> ssh" where
  "userPassAuthentication env this =
     (case promptUserpass env of
        Inl e \<Rightarrow> (Inl e, this)
      | Inr (user, password) \<Rightarrow>
          connectWithConfig env (this\<lparr>sshUsername := Some user\<rparr>)
            ((composeBaseObject (this\<lparr>sshUsername := Some user\<rparr>))\<lparr>cfg_username := user, cfg_password := Some password\<rparr>)
            ''user-password'' ''unable to connect using provided username and password combination.'')"

text \<open>The table \<^verbatim>\<open>strategies\<close> of \<^verbatim>\<open>connect\<close>, each entry bound to the instance.\<close>

fun strategies_of :: "auth_env \<Rightarrow> SSHConnectionStrategyName \<Rightarrow> ssh \<Rightarrow> (error + ssh option) \<times> ssh" where
  "strategies_of env Token = tokenAuthentication env"
| "strategies_of env Anonymous = anonymousAuthentication env"
| "strategies_of env SshAgent = sshAgentAuthentication env"
| "strategies_of env SshKey = sshKeyAuthentication env"
| "strategies_of env UserPassword = userPassAuthentication env"

definition ssh_connect :: "auth_env \<Rightarrow> SSHConnectionStrategyName list \<Rightarrow> ssh \<Rightarrow> (ssh, ssh) negotiation" where
  "ssh_connect env strategiesNames this = connect (strategies_of env) strategiesNames this"

text \<open>Concrete environments used to exercise the negotiation.\<close>

definition this_example :: ssh where
  "this_example = \<lparr>connection = None, path = ''scope'', username = ''git'', port = 22,
     host = ''hub'', sshUsername = None\<rparr>"

definition env_agent_only :: auth_env where
  "env_agent_only =
     \<lparr>globalFlags_token = None, config_user_token = None, SSH_AUTH_SOCK = Some ''/tmp/agent.sock'',
      keyGetter = Inr None, promptUserpass = Inl (Thrown ''no terminal''), macMojaveOs = False,
      handshake = (\<lambda>c. None)\<rparr>"

definition env_unreachable :: auth_env where
  "env_unreachable =
     \<lparr>globalFlags_token = None, config_user_token = None, SSH_AUTH_SOCK = Some ''/tmp/agent.sock'',
      keyGetter = Inr (Some ''KEY''), promptUserpass = Inr (''u'', ''p''), macMojaveOs = False,
      handshake = (\<lambda>c. Some \<lparr>te_message = ''getaddrinfo ENOTFOUND hub'', te_code = Some ''ENOTFOUND'',
                                 te_host = ''hub'', te_port = ''22''\<rparr>)\<rparr>"

definition env_no_credentials :: auth_env where
  "env_no_credentials =
     \<lparr>globalFlags_token = None, config_user_token = None, SSH_AUTH_SOCK = None,
      keyGetter = Inr None, promptUserpass = Inr (''u'', ''p''), macMojaveOs = False,
      handshake = (\<lambda>c. Some \<lparr>te_message = ''All configured authentication methods failed'',
                                 te_code = None, te_host = [], te_port = []\<rparr>)\<rparr>"

definition this_connected :: ssh where
  "this_connected = this_example\<lparr>connection := Some (composeBaseObject this_example)\<rparr>"

section \<open>Command execution\<close>

text \<open>
  \<^verbatim>\<open>str.replace(pattern, replacement)\<close> with a string pattern replaces the first
  occurrence only (the leftmost one; the empty pattern matches at the start). The code
  only passes the replacement \<^verbatim>\<open>''\<close>, so the \<^verbatim>\<open>$\<close> patterns of a replacement are
  not modelled.
\<close>

fun replace_first :: "string \<Rightarrow> string \<Rightarrow> string \<Rightarrow> string" where
  "replace_first [] pat rep = (if pat = [] then rep else [])"
| "replace_first (c # cs) pat rep =
     (if prefix pat (c # cs) then rep @ drop (length pat) (c # cs)
      else c # replace_first cs pat rep)"

text \<open>\<^verbatim>\<open>function clean(str) { return str.replace('\n', ''); }\<close>\<close>

definition clean :: "string \<Rightarrow> string" where
  "clean str = replace_first str [CHR 0x0A] []"

text \<open>
  A promise is settled by the first call of \<^verbatim>\<open>resolve\<close> or \<^verbatim>\<open>reject\<close>; later calls
  have no effect (the semantics of JavaScript promises).
\<close>

datatype 'a promise = Pending | Resolved 'a | Rejected error

definition resolve :: "'a promise \<Rightarrow> 'a \<Rightarrow> 'a promise" where
  "resolve p v = (case p of Pending \<Rightarrow> Resolved v | _ \<Rightarrow> p)"

definition reject :: "'a promise \<Rightarrow> error \<Rightarrow> 'a promise" where
  "reject p e = (case p of Pending \<Rightarrow> Rejected e | _ \<Rightarrow> p)"

text \<open>
  The state of one call of \<^verbatim>\<open>exec\<close>: the local variables \<^verbatim>\<open>res\<close> and \<^verbatim>\<open>err\<close>,
  the promise, the exit codes captured by the \<^verbatim>\<open>promiseExit\<close> closures that
  \<^verbatim>\<open>setTimeout(promiseExit, 2000)\<close> has scheduled and not yet run, and the process-wide
  state of the version check, which \<^verbatim>\<open>errorHandler\<close> uses.
\<close>

record exec_state =
  res :: string
  err :: jsval
  promise :: "string promise"
  timers :: "int option list"
  version_check :: once_state

text \<open>
  What the event loop delivers to the handlers of the stream, one at a time: a chunk on
  the stream, a chunk on its \<^verbatim>\<open>stderr\<close>, the event \<^verbatim>\<open>exit\<close> with its code
  (\<open>None\<close> for \<^verbatim>\<open>null\<close>), the event \<^verbatim>\<open>close\<close> with its code, and the expiry of the
  oldest scheduled timer.
\<close>

datatype stream_event =
    StdoutData string
  | StderrData string
  | Exit "int option"
  | Close "int option"
  | Timeout

text \<open>
  The start of \<^verbatim>\<open>exec\<close>: without a connection, or when \<^verbatim>\<open>connection.exec\<close> reports an
  error, the promise is rejected at once and no handler is installed.
\<close>

definition exec_open :: "ssh \<Rightarrow> error option \<Rightarrow> once_state \<Rightarrow> exec_state" where
  "exec_open this exec_error vc =
     \<lparr>res = [], err = JUndefined,
      promise = (if connection this = None then Rejected (Thrown ''ssh connection is not defined'')
                 else (case exec_error of Some error \<Rightarrow> Rejected error | None \<Rightarrow> Pending)),
      timers = [], version_check = vc\<rparr>"

text \<open>
  \<^verbatim>\<open>code && code !== 0 ? reject(this.errorHandler(code, err)) : resolve(clean(res))\<close>,
  the body shared by \<^verbatim>\<open>promiseExit\<close> and by the handler of \<^verbatim>\<open>close\<close>. The argument of
  \<^verbatim>\<open>reject\<close> is evaluated whether or not the promise is still pending.
\<close>

definition settle :: "collaborators \<Rightarrow> ssh \<Rightarrow> int option \<Rightarrow> exec_state \<Rightarrow> exec_state" where
  "settle ext this code st =
     (if code \<noteq> None \<and> code \<noteq> Some 0
      then (case errorHandler ext this (version_check st) (the code) (err st) of
              (e, vc) \<Rightarrow> st\<lparr>promise := reject (promise st) e, version_check := vc\<rparr>)
      else st\<lparr>promise := resolve (promise st) (clean (res st))\<rparr>)"

fun on_event :: "collaborators \<Rightarrow> ssh \<Rightarrow> string \<Rightarrow> string \<Rightarrow> stream_event \<Rightarrow> exec_state \<Rightarrow> exec_state" where
  "on_event ext this commandName payload (StdoutData response) st = st\<lparr>res := res st @ response\<rparr>"
| "on_event ext this commandName payload (StderrData response) st = st\<lparr>err := JStr response\<rparr>"
| "on_event ext this commandName payload (Exit code) st = st\<lparr>timers := timers st @ [code]\<rparr>"
| "on_event ext this commandName payload Timeout st =
     (case timers st of
        [] \<Rightarrow> st
      | code # rest \<Rightarrow> settle ext this code (st\<lparr>timers := rest\<rparr>))"
| "on_event ext this commandName payload (Close code) st =
     settle ext this code
       (if commandName = ''_put'' then st\<lparr>res := replace_first (res st) payload []\<rparr> else st)"

text \<open>The handlers run on a sequence of events, in the order of delivery.\<close>

fun run :: "collaborators \<Rightarrow> ssh \<Rightarrow> string \<Rightarrow> string \<Rightarrow> stream_event list \<Rightarrow> exec_state \<Rightarrow> exec_state" where
  "run ext this commandName payload [] st = st"
| "run ext this commandName payload (e # es) st =
     run ext this commandName payload es (on_event ext this commandName payload e st)"


text \<open>
  What the handler of \<^verbatim>\<open>close\<close>, and what a \<^verbatim>\<open>promiseExit\<close> that runs, hands to
  \<^verbatim>\<open>resolve\<close> or \<^verbatim>\<open>reject\<close>, from the buffers of the state in which it runs.
\<close>

definition close_settlement :: "collaborators \<Rightarrow> ssh \<Rightarrow> string \<Rightarrow> string \<Rightarrow> int option \<Rightarrow> exec_state \<Rightarrow> string promise" where
  "close_settlement ext this commandName payload code st =
     (if code = None \<or> code = Some 0
      then Resolved (clean (if commandName = ''_put'' then replace_first (res st) payload [] else res st))
      else Rejected (fst (errorHandler ext this (version_check st) (the code) (err st))))"

definition exit_settlement :: "collaborators \<Rightarrow> ssh \<Rightarrow> int option \<Rightarrow> exec_state \<Rightarrow> string promise" where
  "exit_settlement ext this code st =
     (if code = None \<or> code = Some 0
      then Resolved (clean (res st))
      else Rejected (fst (errorHandler ext this (version_check st) (the code) (err st))))"

text \<open>
  The chunks of a sequence of events, per channel, in arrival order, and the codes of its
  \<^verbatim>\<open>exit\<close> events.
\<close>

fun stdout_chunks :: "stream_event list \<Rightarrow> string list" where
  "stdout_chunks [] = []"
| "stdout_chunks (StdoutData response # es) = response # stdout_chunks es"
| "stdout_chunks (e # es) = stdout_chunks es"

fun stderr_chunks :: "stream_event list \<Rightarrow> string list" where
  "stderr_chunks [] = []"
| "stderr_chunks (StderrData response # es) = response # stderr_chunks es"
| "stderr_chunks (e # es) = stderr_chunks es"

fun exit_codes :: "stream_event list \<Rightarrow> int option list" where
  "exit_codes [] = []"
| "exit_codes (Exit code # es) = code # exit_codes es"
| "exit_codes (e # es) = exit_codes es"

text \<open>The events that run a settlement: \<^verbatim>\<open>close\<close> and the expiry of a timer.\<close>

fun settling :: "stream_event \<Rightarrow> bool" where
  "settling (Close code) = True"
| "settling Timeout = True"
| "settling e = False"

text \<open>Trimming every trailing newline, as the specification words the cleaning of the output.\<close>

definition trim_trailing_newlines :: "string \<Rightarrow> string" where
  "trim_trailing_newlines s = rev (dropWhile (\<lambda>c. c = CHR 0x0A) (rev s))"

section \<open>Registry operations\<close>

text \<open>
  The callback that \<^verbatim>\<open>pushMany\<close> chains on \<^verbatim>\<open>exec('_put', ...)\<close>:
  \<^verbatim>\<open>const { payload, headers } = this._unpack(data);
  checkVersionCompatibility(headers.version);
  return payload.ids;\<close>
\<close>

definition pushMany_then :: "collaborators \<Rightarrow> once_state \<Rightarrow> string \<Rightarrow> (error + jsval) \<times> once_state" where
  "pushMany_then ext st data =
     (case unpack ext (JStr data) True of
        Inl e \<Rightarrow> (Inl e, st)
      | Inr unpacked \<Rightarrow>
          (case get_prop unpacked ''payload'' of
             Inl e \<Rightarrow> (Inl e, st)
           | Inr payload \<Rightarrow>
               (case get_prop (js_prop unpacked ''headers'') ''version'' of
                  Inl e \<Rightarrow> (Inl e, st)
                | Inr version \<Rightarrow>
                    (case checkVersionCompatibility ext st version of
                       (Inl e, st') \<Rightarrow> (Inl e, st')
                     | (Inr r, st') \<Rightarrow>
                         (case get_prop payload ''ids'' of
                            Inl e \<Rightarrow> (Inl e, st')
                          | Inr ids \<Rightarrow> (Inr ids, st'))))))"

text \<open>The state of the version check after a sequence of responses has gone through the callback.\<close>

fun pushMany_responses :: "collaborators \<Rightarrow> string list \<Rightarrow> once_state \<Rightarrow> once_state" where
  "pushMany_responses ext [] st = st"
| "pushMany_responses ext (data # rest) st = pushMany_responses ext rest (snd (pushMany_then ext st data))"

text \<open>
  The version string a response carries, when the response decodes to an envelope with
  headers.
\<close>

definition envelope_version :: "collaborators \<Rightarrow> string \<Rightarrow> jsval option" where
  "envelope_version ext data =
     (case unpackCommand ext (JStr data) True of
        None \<Rightarrow> None
      | Some unpacked \<Rightarrow>
          (if nullish unpacked \<or> nullish (js_prop unpacked ''headers'') then None
           else Some (js_prop (js_prop unpacked ''headers'') ''version'')))"

text \<open>
  The values of a list in the order of their first occurrence: the versions that a check
  keyed by version would be applied to.
\<close>

definition first_occurrences :: "'a list \<Rightarrow> 'a list" where
  "first_occurrences xs = rev (remdups (rev xs))"

text \<open>
  The callback that \<^verbatim>\<open>fetch\<close> chains on \<^verbatim>\<open>exec\<close>:
  \<^verbatim>\<open>const { payload, headers } = parseResponse();
  checkVersionCompatibility(headers.version);
  return ComponentObjects.manyFromString(payload);\<close>
  where \<^verbatim>\<open>parseResponse\<close> is \<^verbatim>\<open>JSON.parse(str)\<close> with every exception turned into
  \<open>SSHInvalidResponse str\<close>.
\<close>

definition parseResponse :: "collaborators \<Rightarrow> string \<Rightarrow> error + jsval" where
  "parseResponse ext str =
     (case JSON_parse ext str of
        None \<Rightarrow> Inl (SSHInvalidResponse (JStr str))
      | Some results \<Rightarrow> Inr results)"

definition fetch_then :: "collaborators \<Rightarrow> once_state \<Rightarrow> string \<Rightarrow> (error + jsval) \<times> once_state" where
  "fetch_then ext st str =
     (case parseResponse ext str of
        Inl e \<Rightarrow> (Inl e, st)
      | Inr results \<Rightarrow>
          (case get_prop results ''payload'' of
             Inl e \<Rightarrow> (Inl e, st)
           | Inr payload \<Rightarrow>
               (case get_prop (js_prop results ''headers'') ''version'' of
                  Inl e \<Rightarrow> (Inl e, st)
                | Inr version \<Rightarrow>
                    (case checkVersionCompatibility ext st version of
                       (Inl e, st') \<Rightarrow> (Inl e, st')
                     | (Inr r, st') \<Rightarrow> (manyFromString ext payload, st')))))"

subsection \<open>The whole of fetch\<close>

text \<open>
  \<^verbatim>\<open>return this.exec(`_fetch ${options}`, idsStr, context).then((str) => { ... })\<close> with
  \<^verbatim>\<open>options\<close> either empty or \<^verbatim>\<open>--no-dependencies\<close>.
\<close>

definition fetch_commandName :: "bool \<Rightarrow> string" where
  "fetch_commandName noDeps = ''_fetch '' @ (if noDeps then ''--no-dependencies'' else [])"

text \<open>
  \<^verbatim>\<open>.then(callback)\<close> on the promise of \<^verbatim>\<open>exec\<close>: nothing while the promise is pending
  (\<open>None\<close>), the rejection itself when \<^verbatim>\<open>exec\<close> rejects, and the result of the callback on
  the text \<^verbatim>\<open>exec\<close> resolved with otherwise. The callback runs with the state that the
  version check has when the promise settles.
\<close>

definition then_fetch :: "collaborators \<Rightarrow> exec_state \<Rightarrow> (error + jsval) option" where
  "then_fetch ext st =
     (case promise st of
        Pending \<Rightarrow> None
      | Rejected e \<Rightarrow> Some (Inl e)
      | Resolved str \<Rightarrow> Some (fst (fetch_then ext (version_check st) str)))"

text \<open>The events of the stream are handled until the promise of \<^verbatim>\<open>exec\<close> is settled.\<close>

fun fetch_events ::
  "collaborators \<Rightarrow> ssh \<Rightarrow> string \<Rightarrow> string \<Rightarrow> stream_event list \<Rightarrow> exec_state \<Rightarrow> (error + jsval) option" where
  "fetch_events ext this commandName payload [] st = then_fetch ext st"
| "fetch_events ext this commandName payload (e # es) st =
     (if promise st \<noteq> Pending then then_fetch ext st
      else fetch_events ext this commandName payload es (on_event ext this commandName payload e st))"

text \<open>
  One call of \<^verbatim>\<open>fetch\<close>, for the error \<^verbatim>\<open>connection.exec\<close> may report and the events the
  stream then delivers. The handlers read the payload of \<^verbatim>\<open>exec\<close> for the verb \<open>_put\<close>
  only, so the serialised ids are not part of the model.
\<close>

definition fetch ::
  "collaborators \<Rightarrow> ssh \<Rightarrow> bool \<Rightarrow> error option \<Rightarrow> stream_event list \<Rightarrow> once_state \<Rightarrow> (error + jsval) option" where
  "fetch ext this noDeps exec_error events vc =
     fetch_events ext this (fetch_commandName noDeps) [] events (exec_open this exec_error vc)"

text \<open>
  An instance of the collaborators whose \<^verbatim>\<open>JSON.parse\<close> accepts one response text, an
  envelope with the version \<open>1\<close> and one object in its payload.
\<close>

definition fetch_response_text :: string where
  "fetch_response_text =
     ''{'' @ [CHR 0x22] @ ''headers'' @ [CHR 0x22] @ '':{'' @ [CHR 0x22] @ ''version'' @ [CHR 0x22] @ '':''
     @ [CHR 0x22] @ ''1'' @ [CHR 0x22] @ ''},'' @ [CHR 0x22] @ ''payload'' @ [CHR 0x22] @ '':[''
     @ [CHR 0x22] @ ''obj'' @ [CHR 0x22] @ '']}''"

definition ext_fetch_example :: collaborators where
  "ext_fetch_example =
     ext_example\<lparr>JSON_parse := (\<lambda>s.
        if s = fetch_response_text
        then Some (JObj [(''headers'', JObj [(''version'', JStr ''1'')]),
                         (''payload'', JArr [JStr ''obj''])])
        else None)\<rparr>"

section \<open>Remotes\<close>







section \<open>Properties of the error translator\<close>

lemma errorHandler_parsed:
  "fst (errorHandler ext this st code (JStr e)) =
     error_of_code this code (case accepted_payload ext st e of None \<Rightarrow> JUndefined | Some p \<Rightarrow> p) (JStr e)"
  by (auto simp: errorHandler_def parse_error_envelope_def accepted_payload_def unpack_def get_prop_def
      split: option.splits sum.splits prod.splits)

lemma field_else_and:
  "(if truthy (js_and p (js_prop p k)) then js_prop p k else d) = field_else (Some p) k d"
  by (cases p) (auto simp: js_and_def field_else_def)

lemma field_else_or:
  "js_or (js_and p (js_prop p k)) d = field_else (Some p) k d"
  by (cases p) (auto simp: js_and_def js_or_def field_else_def)

text \<open>
  Claim C1, as amended. For every exit code and raw text \<open>e\<close>, \<open>errorHandler\<close> returns (it
  never throws) the error of the table: 127 gives \<open>ComponentNotFound\<close> with \<open>payload.id\<close>, else
  \<open>e\<close>; 128 and 130 give \<open>PermissionDenied\<close> with host, a colon and path; 129 gives
  \<open>RemoteScopeNotFound\<close> with \<open>payload.name\<close>, else \<open>e\<close>; 131 gives \<open>MergeConflictOnRemote\<close>
  with \<open>payload.idsAndVersions\<close>, else the empty list; 132 gives \<open>CustomError\<close> and 133 gives
  \<open>OldClientVersion\<close> with \<open>payload.message\<close>, else \<open>e\<close>; 134 gives
  \<open>ExportAnotherOwnerPrivate\<close> with \<open>payload.message\<close> else \<open>e\<close>, \<open>payload.sourceScope\<close> else
  \<open>unknown\<close> and \<open>payload.destinationScope\<close> else \<open>unknown\<close>; every other code gives
  \<open>UnexpectedNetworkError\<close> with \<open>payload.message\<close>, else \<open>e\<close>. Here the payload is the one
  of the decoded envelope only when the envelope has headers and the version check does not
  throw; in every other case there is no payload and \<open>e\<close> is used. For the codes outside
  127 to 134 the statement covers the executions in which there is no payload, the payload
  is falsy, or the payload has a truthy message.
\<close>

theorem errorHandler_table:
  assumes "code \<in> {127, 128, 129, 130, 131, 132, 133, 134} \<or>
           (case accepted_payload ext st e of
              None \<Rightarrow> True
            | Some p \<Rightarrow> truthy p \<longrightarrow> truthy (js_prop p ''message''))"
  shows "fst (errorHandler ext this st code (JStr e)) =
           spec_error_table (host this) (path this) code (accepted_payload ext st e) e"
proof (cases "accepted_payload ext st e")
  case None
  then show ?thesis
    by (simp add: errorHandler_parsed error_of_code_def spec_error_table_def
        field_else_def js_and_def js_or_def)
next
  case (Some p)
  show ?thesis
  proof (cases "code \<in> {127, 128, 129, 130, 131, 132, 133, 134}")
    case True
    then show ?thesis
      using Some
      by (auto simp add: errorHandler_parsed error_of_code_def spec_error_table_def
          field_else_and field_else_or)
  next
    case False
    with assms Some have m: "truthy p \<longrightarrow> truthy (js_prop p ''message'')" by simp
    have "(if truthy p then js_prop p ''message'' else JStr e) = field_else (Some p) ''message'' (JStr e)"
      using m by (cases p) (auto simp: field_else_def)
    then show ?thesis
      using False Some
      by (simp add: errorHandler_parsed error_of_code_def spec_error_table_def)
  qed
qed

theorem errorHandler_table_witness:
  "fst (errorHandler ext_example this_example once_init 127 (JStr ''E2'')) = ComponentNotFound (JStr ''my/comp'')
   \<and> fst (errorHandler ext_example this_example once_init 129 (JStr ''boom'')) = RemoteScopeNotFound (JStr ''boom'')
   \<and> fst (errorHandler ext_example this_example once_init 1 (JStr ''boom'')) = UnexpectedNetworkError (JStr ''boom'')"
  using errorHandler_table [of 127 ext_example once_init "''E2''" this_example]
    errorHandler_table [of 129 ext_example once_init "''boom''" this_example]
    errorHandler_table [of 1 ext_example once_init "''boom''" this_example]
  by (simp add: spec_error_table_def accepted_payload_def ext_example_def this_example_def
      field_else_def checkVersionCompatibility_def once_def once_init_def)

text \<open>
  The claim as stated fails: the text \<open>E1\<close> decodes to an envelope whose payload has the
  id \<open>my/comp\<close>, but its version is rejected by the version check, and with the exit code
  127 the translator returns \<open>ComponentNotFound\<close> with the raw text.
\<close>

theorem errorHandler_claimed_table_counterexample:
  "fst (errorHandler ext_example this_example once_init 127 (JStr ''E1'')) = ComponentNotFound (JStr ''E1'')
   \<and> spec_error_table (host this_example) (path this_example) 127 (decoded_payload ext_example ''E1'') ''E1''
       = ComponentNotFound (JStr ''my/comp'')
   \<and> fst (errorHandler ext_example this_example once_init 127 (JStr ''E1''))
       \<noteq> spec_error_table (host this_example) (path this_example) 127 (decoded_payload ext_example ''E1'') ''E1''"
  by (simp add: spec_error_table_def decoded_payload_def ext_example_def this_example_def
      field_else_def checkVersionCompatibility_def once_def once_init_def errorHandler_def
      parse_error_envelope_def unpack_def get_prop_def error_of_code_def js_and_def js_or_def)

section \<open>Properties of the negotiation\<close>

lemma join_header: "join sep (h # xs) = h @ concat (map (\<lambda>m. sep @ m) xs)"
  by (induction xs arbitrary: h) auto

lemma attempts_prefix:
  "map fst (attempts (connect_loop S fs ns w)) = take (length (attempts (connect_loop S fs ns w))) ns"
proof (induction ns arbitrary: fs w)
  case Nil
  show ?case by simp
next
  case (Cons n ns)
  show ?case
    using Cons.IH
    by (auto simp: attempted_def split: prod.splits sum.splits option.splits error.splits)
qed

lemma success_is_last:
  "i < length (attempts (connect_loop S fs ns w)) \<Longrightarrow>
   snd (attempts (connect_loop S fs ns w) ! i) = Inr (Some c) \<Longrightarrow>
   outcome (connect_loop S fs ns w) = Inr c \<and> length (attempts (connect_loop S fs ns w)) = Suc i"
proof (induction ns arbitrary: fs w i)
  case Nil
  then show ?case by simp
next
  case (Cons n ns)
  obtain r w' where step: "S n w = (r, w')" by (cases "S n w")
  show ?case
  proof (cases i)
    case 0
    with Cons.prems step show ?thesis
      by (auto simp: attempted_def split: sum.splits option.splits error.splits)
  next
    case (Suc j)
    with Cons.prems step Cons.IH [of j _ w'] show ?thesis
      by (auto simp: attempted_def split: sum.splits option.splits error.splits)
  qed
qed

lemma fatal_is_last:
  "i < length (attempts (connect_loop S fs ns w)) \<Longrightarrow>
   snd (attempts (connect_loop S fs ns w) ! i) = Inl e \<Longrightarrow> \<not> recoverable (Inl e :: error + 'c option) \<Longrightarrow>
   outcome (connect_loop S fs ns w) = (Inl e :: error + 'c) \<and> length (attempts (connect_loop S fs ns w)) = Suc i
   \<and> failures (connect_loop S fs ns w) = fs @ map (failure_text \<circ> snd) (filter (recoverable \<circ> snd) (attempts (connect_loop S fs ns w)))"
proof (induction ns arbitrary: fs w i)
  case Nil
  then show ?case by simp
next
  case (Cons n ns)
  obtain r w' where step: "S n w = (r, w')" by (cases "S n w")
  show ?case
  proof (cases i)
    case 0
    with Cons.prems step show ?thesis
      by (auto simp: attempted_def split: sum.splits option.splits error.splits)
  next
    case (Suc j)
    with Cons.prems step Cons.IH [of j _ w'] show ?thesis
      by (auto simp: attempted_def split: sum.splits option.splits error.splits)
  qed
qed

lemma all_recoverable:
  "\<forall>a \<in> set (attempts (connect_loop S fs ns w)). recoverable (snd a) \<Longrightarrow>
   outcome (connect_loop S fs ns w) =
     Inl (AuthenticationFailed (join FAILURES_SEPARATOR
       (FAILURES_HEADER # fs @ map (failure_text \<circ> snd) (attempts (connect_loop S fs ns w)))))
   \<and> length (attempts (connect_loop S fs ns w)) = length ns"
proof (induction ns arbitrary: fs w)
  case Nil
  then show ?case by simp
next
  case (Cons n ns)
  obtain r w' where step: "S n w = (r, w')" by (cases "S n w")
  with Cons.prems Cons.IH [of _ w'] show ?case
    by (auto simp: attempted_def split: sum.splits option.splits error.splits)
qed

text \<open>
  Claim C3. For every ordered list of strategy names passed to \<open>connect\<close>: if the attempt at
  index \<open>i\<close> succeeds (returns a truthy value \<open>c\<close>), then \<open>connect\<close> returns \<open>c\<close> and the
  strategies attempted are exactly those at the indices \<open>0\<close> to \<open>i\<close> of the list, so none at
  a greater index is attempted.
\<close>

theorem connect_stops_at_first_success:
  assumes "i < length (attempts (connect S names w))"
    and "snd (attempts (connect S names w) ! i) = Inr (Some c)"
  shows "outcome (connect S names w) = Inr c
         \<and> map fst (attempts (connect S names w)) = take (Suc i) names"
proof -
  have "outcome (connect S names w) = Inr c \<and> length (attempts (connect S names w)) = Suc i"
    using assms success_is_last [of i S "[]" names w c] by (simp add: connect_def)
  moreover have "map fst (attempts (connect S names w)) = take (length (attempts (connect S names w))) names"
    using attempts_prefix [of S "[]" names w] by (simp add: connect_def)
  ultimately show ?thesis by simp
qed

lemma ssh_connect_agent_only:
  "ssh_connect env_agent_only DEFAULT_STRATEGIES this_example =
     \<lparr>outcome = Inr (this_example\<lparr>connection := Some ((composeBaseObject this_example)\<lparr>cfg_agent := Some ''/tmp/agent.sock''\<rparr>)\<rparr>),
      attempts = [(Token, Inl (AuthenticationStrategyFailed
                      ''user token not defined in bit-config. please run `bit login` to authenticate.'')),
                  (SshAgent, Inr (Some (this_example\<lparr>connection := Some ((composeBaseObject this_example)\<lparr>cfg_agent := Some ''/tmp/agent.sock''\<rparr>)\<rparr>)))],
      failures = [''user token not defined in bit-config. please run `bit login` to authenticate.''],
      world = this_example\<lparr>connection := Some ((composeBaseObject this_example)\<lparr>cfg_agent := Some ''/tmp/agent.sock''\<rparr>)\<rparr>\<rparr>"
  by (simp add: ssh_connect_def connect_def DEFAULT_STRATEGIES_def env_agent_only_def
      tokenAuthentication_def composeTokenAuthObject_def sshAgentAuthentication_def
      connectWithConfig_def attempted_def)

theorem connect_stops_at_first_success_witness:
  "1 < length (attempts (ssh_connect env_agent_only DEFAULT_STRATEGIES this_example))
   \<and> snd (attempts (ssh_connect env_agent_only DEFAULT_STRATEGIES this_example) ! 1) =
       Inr (Some (this_example\<lparr>connection := Some ((composeBaseObject this_example)\<lparr>cfg_agent := Some ''/tmp/agent.sock''\<rparr>)\<rparr>))
   \<and> outcome (ssh_connect env_agent_only DEFAULT_STRATEGIES this_example) =
       Inr (this_example\<lparr>connection := Some ((composeBaseObject this_example)\<lparr>cfg_agent := Some ''/tmp/agent.sock''\<rparr>)\<rparr>)
   \<and> map fst (attempts (ssh_connect env_agent_only DEFAULT_STRATEGIES this_example)) = [Token, SshAgent]"
  using connect_stops_at_first_success [of 1 "strategies_of env_agent_only" DEFAULT_STRATEGIES this_example
      "this_example\<lparr>connection := Some ((composeBaseObject this_example)\<lparr>cfg_agent := Some ''/tmp/agent.sock''\<rparr>)\<rparr>"]
    ssh_connect_agent_only
  by (simp add: ssh_connect_def DEFAULT_STRATEGIES_def)

text \<open>
  Claim C4. If an attempt throws an error that is not an \<open>AuthenticationStrategyFailed\<close>,
  \<open>connect\<close> stops there: the strategies attempted are those up to that index and no later
  one, \<open>connect\<close> rejects with that same error, and \<open>strategiesFailures\<close> holds the texts of
  the recoverable failures only.
\<close>

theorem connect_halts_on_unexpected_error:
  assumes "i < length (attempts (connect S names w))"
    and "snd (attempts (connect S names w) ! i) = Inl e"
    and "\<not> recoverable (Inl e :: error + 'c option)"
  shows "outcome (connect S names w) = (Inl e :: error + 'c)
         \<and> map fst (attempts (connect S names w)) = take (Suc i) names
         \<and> failures (connect S names w) =
             map (failure_text \<circ> snd) (filter (recoverable \<circ> snd) (attempts (connect S names w)))"
proof -
  have "outcome (connect S names w) = Inl e \<and> length (attempts (connect S names w)) = Suc i
        \<and> failures (connect S names w) =
             map (failure_text \<circ> snd) (filter (recoverable \<circ> snd) (attempts (connect S names w)))"
    using assms fatal_is_last [of i S "[]" names w e] by (simp add: connect_def)
  moreover have "map fst (attempts (connect S names w)) = take (length (attempts (connect S names w))) names"
    using attempts_prefix [of S "[]" names w] by (simp add: connect_def)
  ultimately show ?thesis by simp
qed

lemma ssh_connect_unreachable:
  "ssh_connect env_unreachable DEFAULT_STRATEGIES this_example =
     \<lparr>outcome = Inl (GeneralError ''unable to find the SSH server. host: hub, port: 22. Original error message: getaddrinfo ENOTFOUND hub''),
      attempts = [(Token, Inl (AuthenticationStrategyFailed
                      ''user token not defined in bit-config. please run `bit login` to authenticate.'')),
                  (SshAgent, Inl (GeneralError ''unable to find the SSH server. host: hub, port: 22. Original error message: getaddrinfo ENOTFOUND hub''))],
      failures = [''user token not defined in bit-config. please run `bit login` to authenticate.''],
      world = this_example\<rparr>"
  by (simp add: ssh_connect_def connect_def DEFAULT_STRATEGIES_def env_unreachable_def
      tokenAuthentication_def composeTokenAuthObject_def sshAgentAuthentication_def
      connectWithConfig_def attempted_def AUTH_FAILED_MESSAGE_def)

theorem connect_halts_on_unexpected_error_witness:
  "1 < length (attempts (ssh_connect env_unreachable DEFAULT_STRATEGIES this_example))
   \<and> snd (attempts (ssh_connect env_unreachable DEFAULT_STRATEGIES this_example) ! 1) =
       Inl (GeneralError ''unable to find the SSH server. host: hub, port: 22. Original error message: getaddrinfo ENOTFOUND hub'')
   \<and> \<not> recoverable (Inl (GeneralError ''unable to find the SSH server. host: hub, port: 22. Original error message: getaddrinfo ENOTFOUND hub'') :: error + ssh option)
   \<and> outcome (ssh_connect env_unreachable DEFAULT_STRATEGIES this_example) =
       Inl (GeneralError ''unable to find the SSH server. host: hub, port: 22. Original error message: getaddrinfo ENOTFOUND hub'')
   \<and> map fst (attempts (ssh_connect env_unreachable DEFAULT_STRATEGIES this_example)) = [Token, SshAgent]
   \<and> failures (ssh_connect env_unreachable DEFAULT_STRATEGIES this_example) =
       [''user token not defined in bit-config. please run `bit login` to authenticate.'']"
  using connect_halts_on_unexpected_error [of 1 "strategies_of env_unreachable" DEFAULT_STRATEGIES this_example
      "GeneralError ''unable to find the SSH server. host: hub, port: 22. Original error message: getaddrinfo ENOTFOUND hub''"]
    ssh_connect_unreachable
  by (simp add: ssh_connect_def DEFAULT_STRATEGIES_def)

text \<open>
  Claim C5. If every attempt fails recoverably, every strategy of the list has been
  attempted once, in order, and \<open>connect\<close> rejects with \<open>AuthenticationFailed\<close> whose message
  is the header followed, for each attempt in order, by the separator and the failure text
  of that attempt.
\<close>

theorem connect_aggregates_all_failures:
  assumes "\<forall>a \<in> set (attempts (connect S names w)). recoverable (snd a)"
  shows "outcome (connect S names w) =
           Inl (AuthenticationFailed
             (FAILURES_HEADER @
              concat (map (\<lambda>a. FAILURES_SEPARATOR @ failure_text (snd a)) (attempts (connect S names w)))))
         \<and> map fst (attempts (connect S names w)) = names"
proof -
  have "outcome (connect S names w) =
          Inl (AuthenticationFailed (join FAILURES_SEPARATOR
            (FAILURES_HEADER # map (failure_text \<circ> snd) (attempts (connect S names w)))))
        \<and> length (attempts (connect S names w)) = length names"
    using assms all_recoverable [of S "[]" names w] by (simp add: connect_def)
  moreover have "map fst (attempts (connect S names w)) = take (length (attempts (connect S names w))) names"
    using attempts_prefix [of S "[]" names w] by (simp add: connect_def)
  ultimately show ?thesis by (simp add: join_header comp_def)
qed

lemma ssh_connect_no_credentials:
  "attempts (ssh_connect env_no_credentials DEFAULT_READ_STRATEGIES this_example) =
     [(Token, Inl (AuthenticationStrategyFailed
         ''user token not defined in bit-config. please run `bit login` to authenticate.'')),
      (SshAgent, Inl (AuthenticationStrategyFailed
         ''unable to get SSH keys from ssh-agent to. perhaps service is down or disabled.'')),
      (SshKey, Inl (AuthenticationStrategyFailed
         ''SSH key not found in `~/.ssh/id_rsa` or `ssh_key_file` config in `bit config` either not configured or refers to wrong path.'')),
      (Anonymous, Inl (AuthenticationStrategyFailed ''collection might be private.'')),
      (UserPassword, Inl (AuthenticationStrategyFailed
         ''unable to connect using provided username and password combination.''))]"
  by (simp add: ssh_connect_def connect_def DEFAULT_READ_STRATEGIES_def env_no_credentials_def
      tokenAuthentication_def composeTokenAuthObject_def sshAgentAuthentication_def
      sshKeyAuthentication_def anonymousAuthentication_def composeAnonymousAuthObject_def
      userPassAuthentication_def connectWithConfig_def attempted_def AUTH_FAILED_MESSAGE_def)

theorem connect_aggregates_all_failures_witness:
  "list_all (\<lambda>a. recoverable (snd a)) (attempts (ssh_connect env_no_credentials DEFAULT_READ_STRATEGIES this_example))
   \<and> outcome (ssh_connect env_no_credentials DEFAULT_READ_STRATEGIES this_example) =
       Inl (AuthenticationFailed
         (''The following strategies were failed''
          @ CHR 0x0A # ''[-] user token not defined in bit-config. please run `bit login` to authenticate.''
          @ CHR 0x0A # ''[-] unable to get SSH keys from ssh-agent to. perhaps service is down or disabled.''
          @ CHR 0x0A # ''[-] SSH key not found in `~/.ssh/id_rsa` or `ssh_key_file` config in `bit config` either not configured or refers to wrong path.''
          @ CHR 0x0A # ''[-] collection might be private.''
          @ CHR 0x0A # ''[-] unable to connect using provided username and password combination.''))"
  using connect_aggregates_all_failures [of "strategies_of env_no_credentials" DEFAULT_READ_STRATEGIES this_example]
    ssh_connect_no_credentials
  by (simp add: ssh_connect_def FAILURES_HEADER_def FAILURES_SEPARATOR_def)

section \<open>Properties of command execution\<close>

lemma settle_write_once:
  "promise st \<noteq> Pending \<Longrightarrow> promise (settle ext this code st) = promise st"
  by (cases "promise st") (auto simp: settle_def resolve_def reject_def split: prod.splits)

lemma on_event_write_once:
  "promise st \<noteq> Pending \<Longrightarrow> promise (on_event ext this cn pl e st) = promise st"
  by (cases e) (auto simp: settle_write_once split: list.splits)

lemma run_write_once:
  "promise st \<noteq> Pending \<Longrightarrow> promise (run ext this cn pl es st) = promise st"
  by (induction es arbitrary: st) (auto simp: on_event_write_once)



lemma run_append:
  "run ext this cn pl (xs @ ys) st = run ext this cn pl ys (run ext this cn pl xs st)"
  by (induction xs arbitrary: st) auto

lemma run_pending_start:
  "promise (run ext this cn pl es st) = Pending \<Longrightarrow> promise st = Pending"
  using run_write_once [of st ext this cn pl es] by (cases "promise st = Pending") auto



lemma close_settles:
  "promise st = Pending \<Longrightarrow>
   promise (on_event ext this cn pl (Close code) st) = close_settlement ext this cn pl code st"
  by (auto simp: settle_def close_settlement_def resolve_def reject_def split: prod.splits)

lemma timeout_settles:
  "promise st = Pending \<Longrightarrow> timers st = code # rest \<Longrightarrow>
   promise (on_event ext this cn pl Timeout st) = exit_settlement ext this code st"
  by (auto simp: settle_def exit_settlement_def resolve_def reject_def split: prod.splits)

lemma close_settlement_not_pending: "close_settlement ext this cn pl code st \<noteq> Pending"
  by (simp add: close_settlement_def)

lemma exit_settlement_not_pending: "exit_settlement ext this code st \<noteq> Pending"
  by (simp add: exit_settlement_def)

lemma run_data:
  "\<forall>e \<in> set pre. \<not> settling e \<Longrightarrow>
   promise (run ext this cn pl pre st) = promise st
   \<and> res (run ext this cn pl pre st) = res st @ concat (stdout_chunks pre)
   \<and> err (run ext this cn pl pre st) =
       (if stderr_chunks pre = [] then err st else JStr (last (stderr_chunks pre)))
   \<and> version_check (run ext this cn pl pre st) = version_check st"
proof (induction pre arbitrary: st)
  case Nil
  show ?case by simp
next
  case (Cons e pre)
  then show ?case by (cases e) auto
qed

lemma run_timers:
  "\<forall>e \<in> set pre. \<not> settling e \<Longrightarrow>
   timers (run ext this cn pl pre st) = timers st @ exit_codes pre"
proof (induction pre arbitrary: st)
  case Nil
  show ?case by simp
next
  case (Cons e pre)
  then show ?case by (cases e) auto
qed

lemma clean_single_trailing: "CHR 0x0A \<notin> set t \<Longrightarrow> clean (t @ [CHR 0x0A]) = t"
  by (induction t) (auto simp: clean_def)



text \<open>
  Claim C7, as amended. An execution opened on a connection and settled by \<^verbatim>\<open>close\<close> with
  the code 0 (or no code) resolves with the accumulated stdout from which, for the verb
  \<open>_put\<close> only, the first occurrence of the payload text has been removed, and from which
  then the first newline character has been removed, wherever it stands; for a verb other
  than \<open>_put\<close>, an execution settled by the timer of an \<^verbatim>\<open>exit\<close> with such a code resolves
  with the accumulated stdout without its first newline character.
\<close>

theorem exec_resolved_value:
  assumes "\<forall>e \<in> set pre. \<not> settling e"
    and "code = None \<or> code = Some 0"
    and "connection this \<noteq> None"
  shows "promise (run ext this cn pl (pre @ Close code # post) (exec_open this None vc)) =
           Resolved (clean (if cn = ''_put'' then replace_first (concat (stdout_chunks pre)) pl []
                            else concat (stdout_chunks pre)))
         \<and> (cn \<noteq> ''_put'' \<and> exit_codes pre \<noteq> [] \<and> hd (exit_codes pre) = code \<longrightarrow>
              promise (run ext this cn pl (pre @ Timeout # post) (exec_open this None vc)) =
                Resolved (clean (concat (stdout_chunks pre))))"
proof -
  let ?st = "exec_open this None vc"
  let ?s = "run ext this cn pl pre ?st"
  have st: "promise ?st = Pending" "res ?st = []" "timers ?st = []"
    using assms(3) by (simp_all add: exec_open_def)
  have d: "promise ?s = Pending" "res ?s = concat (stdout_chunks pre)"
    using run_data [OF assms(1), of ext this cn pl ?st] st by simp_all
  have t: "timers ?s = exit_codes pre"
    using run_timers [OF assms(1), of ext this cn pl ?st] st by simp
  have c: "promise (run ext this cn pl (pre @ Close code # post) ?st) = close_settlement ext this cn pl code ?s"
    using close_settles [OF d(1), of ext this cn pl code]
      run_write_once [of "on_event ext this cn pl (Close code) ?s" ext this cn pl post]
    by (simp add: run_append close_settlement_not_pending)
  have e: "exit_codes pre \<noteq> [] \<and> hd (exit_codes pre) = code \<longrightarrow>
      promise (run ext this cn pl (pre @ Timeout # post) ?st) = exit_settlement ext this code ?s"
  proof
    assume a: "exit_codes pre \<noteq> [] \<and> hd (exit_codes pre) = code"
    then have "timers ?s = code # tl (exit_codes pre)" using t by (cases "exit_codes pre") auto
    then show "promise (run ext this cn pl (pre @ Timeout # post) ?st) = exit_settlement ext this code ?s"
      using timeout_settles [OF d(1), of code "tl (exit_codes pre)" ext this cn pl]
        run_write_once [of "on_event ext this cn pl Timeout ?s" ext this cn pl post]
      by (simp add: run_append exit_settlement_not_pending)
  qed
  from c e d(2) assms(2) show ?thesis
    by (auto simp: close_settlement_def exit_settlement_def)
qed

theorem exec_resolved_value_witness:
  "promise (run ext_example this_connected ''_put'' ''DATA''
     ([StdoutData ''DATAok'', StdoutData [CHR 0x0A], Exit (Some 0)] @ Close (Some 0) # [Timeout])
     (exec_open this_connected None once_init)) = Resolved ''ok''
   \<and> promise (run ext_example this_connected ''_list'' ''DATA''
     ([StdoutData ''DATAok'', StdoutData [CHR 0x0A], Exit (Some 0)] @ Timeout # [])
     (exec_open this_connected None once_init)) = Resolved ''DATAok''"
  using exec_resolved_value [of "[StdoutData ''DATAok'', StdoutData [CHR 0x0A], Exit (Some 0)]" "Some 0"
      this_connected ext_example "''_put''" "''DATA''" "[Timeout]" once_init]
    exec_resolved_value [of "[StdoutData ''DATAok'', StdoutData [CHR 0x0A], Exit (Some 0)]" "Some 0"
      this_connected ext_example "''_list''" "''DATA''" "[]" once_init]
  by (simp add: this_connected_def clean_def)

text \<open>
  The claim as stated fails: for the verb \<open>_list\<close> and the output \<open>a\<close>, newline, \<open>b\<close>, which
  has no trailing newline to trim, the execution resolves with \<open>ab\<close>.
\<close>

theorem exec_trailing_newline_counterexample:
  "promise (run ext_example this_connected ''_list'' []
     [StdoutData (''a'' @ [CHR 0x0A] @ ''b''), Close (Some 0)]
     (exec_open this_connected None once_init)) = Resolved ''ab''
   \<and> promise (run ext_example this_connected ''_list'' []
     [StdoutData (''a'' @ [CHR 0x0A] @ ''b''), Close (Some 0)]
     (exec_open this_connected None once_init))
       \<noteq> Resolved (trim_trailing_newlines (concat (stdout_chunks
            [StdoutData (''a'' @ [CHR 0x0A] @ ''b''), Close (Some 0)])))"
  by (simp add: exec_open_def this_connected_def settle_def resolve_def clean_def
      trim_trailing_newlines_def)

text \<open>
  Claim C8. The chunks of stdout are appended to \<open>res\<close>, but each chunk of stderr replaces
  \<open>err\<close>: after the chunks \<open>ab\<close> and \<open>cd\<close> the variable holds \<open>cd\<close>, and an execution that
  then closes with the code 1 hands \<open>cd\<close>, not the concatenation \<open>abcd\<close>, to the error
  translator.
\<close>

theorem exec_stderr_keeps_last_chunk:
  "err (run ext_example this_connected ''_list'' []
     [StderrData ''ab'', StderrData ''cd'']
     (exec_open this_connected None once_init)) = JStr ''cd''
   \<and> promise (run ext_example this_connected ''_list'' []
     [StderrData ''ab'', StderrData ''cd'', Close (Some 1)]
     (exec_open this_connected None once_init)) = Rejected (UnexpectedNetworkError (JStr ''cd''))
   \<and> concat (stderr_chunks [StderrData ''ab'', StderrData ''cd'', Close (Some 1)]) = ''abcd''
   \<and> res (run ext_example this_connected ''_list'' []
     [StdoutData ''ab'', StdoutData ''cd'']
     (exec_open this_connected None once_init)) = ''abcd''"
  by (simp add: exec_open_def this_connected_def settle_def reject_def errorHandler_def
      parse_error_envelope_def unpack_def ext_example_def error_of_code_def)

section \<open>Properties of the registry operations\<close>

lemma once_called: "called st \<Longrightarrow> once fn st x = (Inr (result st), st)"
  by (simp add: once_def)

lemma once_sets_called: "called (snd (once fn st x))"
  by (auto simp: once_def split: sum.splits)

lemma once_first: "\<not> called st \<Longrightarrow> invoked (snd (once fn st x)) = invoked st @ [x]"
  by (auto simp: once_def split: sum.splits)

lemma pushMany_then_called:
  "called st \<Longrightarrow> snd (pushMany_then ext st data) = st"
  by (auto simp: pushMany_then_def checkVersionCompatibility_def once_called
      split: sum.splits prod.splits)

lemma pushMany_responses_called:
  "called st \<Longrightarrow> pushMany_responses ext ds st = st"
  by (induction ds arbitrary: st) (auto simp: pushMany_then_called)

lemma pushMany_then_decoded:
  "envelope_version ext data = Some v \<Longrightarrow>
   snd (pushMany_then ext st data) = snd (checkVersionCompatibility ext st v)"
  by (auto simp: pushMany_then_def envelope_version_def unpack_def get_prop_def
      split: option.splits sum.splits prod.splits if_splits)

text \<open>
  Claim C6, as amended. The version check is not keyed by the version string: in a process
  in which it has not run yet, it runs exactly once, on the version of the first response
  that decodes to an envelope with headers, and no later response, whatever version it
  carries, triggers it again.
\<close>

theorem version_check_runs_once_only:
  assumes "envelope_version ext data = Some v"
  shows "invoked (pushMany_responses ext (data # rest) once_init) = [v]"
proof -
  let ?st = "snd (checkVersionCompatibility ext once_init v)"
  have "called ?st"
    by (simp add: checkVersionCompatibility_def once_sets_called)
  then have "pushMany_responses ext rest ?st = ?st"
    by (rule pushMany_responses_called)
  moreover have "invoked ?st = [v]"
    using once_first [of once_init "checkVersionCompatibilityFunction ext" v]
    by (simp add: checkVersionCompatibility_def once_init_def)
  ultimately show ?thesis
    using assms by (simp add: pushMany_then_decoded)
qed

theorem version_check_runs_once_only_witness:
  "envelope_version ext_example ''R2'' = Some (JStr ''2'')
   \<and> invoked (pushMany_responses ext_example [''R2'', ''R1'', ''R2''] once_init) = [JStr ''2'']"
  using version_check_runs_once_only [of ext_example "''R2''" "JStr ''2''" "[''R1'', ''R2'']"]
  by (simp add: envelope_version_def ext_example_def)

text \<open>
  The claim as stated fails: of two responses that carry the versions \<open>1\<close> and \<open>2\<close>, only
  the first is checked, while a check keyed by version would run on both.
\<close>

theorem version_check_keyed_counterexample:
  "map (envelope_version ext_example) [''R1'', ''R2''] = [Some (JStr ''1''), Some (JStr ''2'')]
   \<and> invoked (pushMany_responses ext_example [''R1'', ''R2''] once_init) = [JStr ''1'']
   \<and> invoked (pushMany_responses ext_example [''R1'', ''R2''] once_init)
       \<noteq> first_occurrences [JStr ''1'', JStr ''2'']"
  by (simp add: envelope_version_def ext_example_def first_occurrences_def pushMany_then_def
      unpack_def get_prop_def checkVersionCompatibility_def once_def once_init_def)

lemma fetch_commandName_not_put: "fetch_commandName noDeps \<noteq> ''_put''"
  by (simp add: fetch_commandName_def)

lemma fetch_events_settled:
  "promise st \<noteq> Pending \<Longrightarrow> fetch_events ext this cn pl es st = then_fetch ext st"
  by (cases es) auto

lemma fetch_events_settles:
  "promise (run ext this cn pl pre st) = Pending \<Longrightarrow>
   promise (on_event ext this cn pl e (run ext this cn pl pre st)) \<noteq> Pending \<Longrightarrow>
   fetch_events ext this cn pl (pre @ e # post) st =
     then_fetch ext (on_event ext this cn pl e (run ext this cn pl pre st))"
proof (induction pre arbitrary: st)
  case Nil
  then show ?case by (simp add: fetch_events_settled)
next
  case (Cons a pre)
  from Cons.prems(1) have "promise st = Pending"
    using run_pending_start [of ext this cn pl "a # pre" st] by simp
  with Cons show ?case by simp
qed

lemma close_resolves:
  "promise st = Pending \<Longrightarrow> code = None \<or> code = Some 0 \<Longrightarrow> cn \<noteq> ''_put'' \<Longrightarrow>
   promise (on_event ext this cn pl (Close code) st) = Resolved (clean (res st))
   \<and> version_check (on_event ext this cn pl (Close code) st) = version_check st"
  by (auto simp: settle_def resolve_def)

lemma timeout_resolves:
  "promise st = Pending \<Longrightarrow> code = None \<or> code = Some 0 \<Longrightarrow> timers st = code # rest \<Longrightarrow>
   promise (on_event ext this cn pl Timeout st) = Resolved (clean (res st))
   \<and> version_check (on_event ext this cn pl Timeout st) = version_check st"
  by (auto simp: settle_def resolve_def)

lemma fetch_resolved:
  assumes "\<forall>e \<in> set pre. \<not> settling e"
    and "code = None \<or> code = Some 0"
    and "connection this \<noteq> None"
    and "fin = Close code \<or> (fin = Timeout \<and> exit_codes pre \<noteq> [] \<and> hd (exit_codes pre) = code)"
  shows "fetch ext this noDeps None (pre @ fin # post) vc =
           Some (fst (fetch_then ext vc (clean (concat (stdout_chunks pre)))))"
proof -
  let ?cn = "fetch_commandName noDeps"
  let ?st = "exec_open this None vc"
  let ?s = "run ext this ?cn [] pre ?st"
  have st: "promise ?st = Pending" "res ?st = []" "timers ?st = []" "version_check ?st = vc"
    using assms(3) by (simp_all add: exec_open_def)
  have d: "promise ?s = Pending" "res ?s = concat (stdout_chunks pre)" "version_check ?s = vc"
    using run_data [OF assms(1), of ext this ?cn "[]" ?st] st by simp_all
  have t: "timers ?s = exit_codes pre"
    using run_timers [OF assms(1), of ext this ?cn "[]" ?st] st by simp
  have f: "promise (on_event ext this ?cn [] fin ?s) = Resolved (clean (res ?s))
           \<and> version_check (on_event ext this ?cn [] fin ?s) = version_check ?s"
  proof (cases "fin = Close code")
    case True
    then show ?thesis
      using close_resolves [OF d(1) assms(2) fetch_commandName_not_put, where pl = "[]"] by simp
  next
    case False
    with assms(4) have a: "fin = Timeout" "exit_codes pre \<noteq> []" "hd (exit_codes pre) = code" by auto
    then have "timers ?s = code # tl (exit_codes pre)" using t by (cases "exit_codes pre") auto
    then show ?thesis
      using timeout_resolves [OF d(1) assms(2), where rest = "tl (exit_codes pre)" and pl = "[]"] a(1) by simp
  qed
  then have "fetch_events ext this ?cn [] (pre @ fin # post) ?st = then_fetch ext (on_event ext this ?cn [] fin ?s)"
    using fetch_events_settles [OF d(1), of fin post] by simp
  with f d show ?thesis by (simp add: fetch_def then_fetch_def)
qed

lemma fetch_then_codec:
  "fetch_then (ext\<lparr>unpackCommand := codec\<rparr>) st str = fetch_then ext st str"
proof -
  have "checkVersionCompatibility (ext\<lparr>unpackCommand := codec\<rparr>) = checkVersionCompatibility ext"
    by (intro ext) (simp add: checkVersionCompatibility_def)
  then show ?thesis
    by (simp add: fetch_then_def parseResponse_def split: option.splits sum.splits prod.splits)
qed

text \<open>
  Claim C9. Take a call of \<open>fetch\<close> on an open connection whose execution is settled with
  the code 0 (or no code), by \<^verbatim>\<open>close\<close> or by the timer of an \<^verbatim>\<open>exit\<close>, and let \<open>str\<close> be
  the response text, that is the text \<^verbatim>\<open>exec\<close> resolves with (the accumulated stdout
  after \<open>clean\<close>). The text is decoded by \<^verbatim>\<open>JSON.parse\<close> alone, as a plain structure of
  headers and payload: when it parses to a value with headers, the version check is applied
  to \<open>headers.version\<close> and the call yields the check's error or the deserialised
  \<open>payload\<close>; when it parses to a value without headers (or to \<^verbatim>\<open>null\<close>) the call fails
  with a type error; when it is not valid JSON the call fails with \<open>SSHInvalidResponse\<close>
  carrying exactly \<open>str\<close>. The codec of the packed envelope has no part in the result.
\<close>

theorem fetch_invalid_response:
  assumes "\<forall>e \<in> set pre. \<not> settling e"
    and "code = None \<or> code = Some 0"
    and "connection this \<noteq> None"
    and "fin = Close code \<or> (fin = Timeout \<and> exit_codes pre \<noteq> [] \<and> hd (exit_codes pre) = code)"
    and "str = clean (concat (stdout_chunks pre))"
  shows "(JSON_parse ext str = None \<longrightarrow>
            fetch ext this noDeps None (pre @ fin # post) vc = Some (Inl (SSHInvalidResponse (JStr str))))
         \<and> (JSON_parse ext str = Some results \<and> \<not> nullish results \<and> \<not> nullish (js_prop results ''headers'') \<longrightarrow>
            fetch ext this noDeps None (pre @ fin # post) vc =
              Some (case fst (checkVersionCompatibility ext vc (js_prop (js_prop results ''headers'') ''version'')) of
                      Inl e \<Rightarrow> Inl e
                    | Inr r \<Rightarrow> manyFromString ext (js_prop results ''payload'')))
         \<and> (JSON_parse ext str = Some results \<and> (nullish results \<or> nullish (js_prop results ''headers'')) \<longrightarrow>
            fetch ext this noDeps None (pre @ fin # post) vc = Some (Inl TypeError))
         \<and> fetch (ext\<lparr>unpackCommand := codec\<rparr>) this noDeps None (pre @ fin # post) vc =
             fetch ext this noDeps None (pre @ fin # post) vc"
proof -
  have r: "\<And>x. fetch x this noDeps None (pre @ fin # post) vc = Some (fst (fetch_then x vc str))"
    using fetch_resolved [OF assms(1-4)] assms(5) by simp
  have 1: "JSON_parse ext str = None \<longrightarrow> fst (fetch_then ext vc str) = Inl (SSHInvalidResponse (JStr str))"
    by (simp add: fetch_then_def parseResponse_def)
  have 2: "JSON_parse ext str = Some results \<and> \<not> nullish results \<and> \<not> nullish (js_prop results ''headers'') \<longrightarrow>
            fst (fetch_then ext vc str) =
              (case fst (checkVersionCompatibility ext vc (js_prop (js_prop results ''headers'') ''version'')) of
                      Inl e \<Rightarrow> Inl e
                    | Inr r \<Rightarrow> manyFromString ext (js_prop results ''payload''))"
    by (auto simp: fetch_then_def parseResponse_def get_prop_def split: sum.splits prod.splits)
  have 3: "JSON_parse ext str = Some results \<and> (nullish results \<or> nullish (js_prop results ''headers'')) \<longrightarrow>
            fst (fetch_then ext vc str) = Inl TypeError"
    by (auto simp: fetch_then_def parseResponse_def get_prop_def split: sum.splits prod.splits)
  from 1 2 3 show ?thesis by (simp add: r fetch_then_codec)
qed

theorem fetch_invalid_response_witness:
  "fetch ext_fetch_example this_connected False None
     ([StdoutData ''not json'', Exit (Some 0)] @ Close (Some 0) # [Timeout]) once_init
     = Some (Inl (SSHInvalidResponse (JStr ''not json'')))
   \<and> fetch ext_fetch_example this_connected True None
     ([StdoutData fetch_response_text, StdoutData [CHR 0x0A], Exit (Some 0)] @ Timeout # []) once_init
     = Some (Inr (JArr [JStr ''obj'']))"
  using fetch_invalid_response [where pre = "[StdoutData ''not json'', Exit (Some 0)]" and code = "Some 0"
      and this = this_connected and fin = "Close (Some 0)" and str = "''not json''"
      and ext = ext_fetch_example and results = JNull and noDeps = False and post = "[Timeout]"
      and vc = once_init and codec = "unpackCommand ext_fetch_example"]
    fetch_invalid_response [where pre = "[StdoutData fetch_response_text, StdoutData [CHR 0x0A], Exit (Some 0)]"
      and code = "Some 0" and this = this_connected and fin = Timeout and str = fetch_response_text
      and ext = ext_fetch_example
      and results = "JObj [(''headers'', JObj [(''version'', JStr ''1'')]), (''payload'', JArr [JStr ''obj''])]"
      and noDeps = True and post = "[]" and vc = once_init and codec = "unpackCommand ext_fetch_example"]
  by (simp add: this_connected_def clean_def fetch_response_text_def ext_fetch_example_def
      ext_example_def checkVersionCompatibility_def once_def once_init_def)

section \<open>Properties of remotes\<close>



lemma replace_first_absent:
  "c \<notin> set s \<Longrightarrow> replace_first s [c] [] = s"
  by (induction s) auto





end
